theory Spec2Isabelle
  imports Main
begin

section \<open>Strings and numbers as the card computes them\<close>

text \<open>
  A JavaScript string is a sequence of UTF-16 code units. The strings that come in
  (configuration values, identifiers, live states) are of type \<^typ>\<open>string\<close>: each
  \<^typ>\<open>char\<close> stands for the code unit of the same number, so they are the strings
  whose code units are below 256, and the degree sign of the climate label (U+00B0) is
  the one character \<^term>\<open>char_of (176::nat)\<close>. \<open>toUpperCase\<close> leads out of this
  range, so the text that passes through it, the room name and the climate label, is a
  list of code units of any size.
\<close>

type_synonym code_units = "nat list"

definition units :: "string \<Rightarrow> code_units" where
  "units s = map of_char s"

definition degree_sign :: char where
  "degree_sign = char_of (176::nat)"

text \<open>
  \<open>toUpperCase\<close> on one code unit below 256, by the Unicode case mappings that
  \<open>String.prototype.toUpperCase\<close> applies: the letters a to z; the micro sign (181),
  whose capital is the Greek MU (924); the sharp s (223), which becomes SS; the
  letters a-grave to thorn (224 to 254) but for the division sign (247); and y with
  diaeresis (255), whose capital is code unit 376. Every other code unit below 256 has
  no uppercase mapping. The mapping of a character does not depend on its neighbours,
  so a string is uppercased unit by unit.
\<close>

definition toUpperCase_unit :: "char \<Rightarrow> code_units" where
  "toUpperCase_unit c =
     (let n = (of_char c :: nat)
      in if 97 \<le> n \<and> n \<le> 122 then [n - 32]
         else if n = 181 then [924]
         else if n = 223 then [83, 83]
         else if (224 \<le> n \<and> n \<le> 246) \<or> (248 \<le> n \<and> n \<le> 254) then [n - 32]
         else if n = 255 then [376]
         else [n])"

definition toUpperCase :: "string \<Rightarrow> code_units" where
  "toUpperCase s = concat (map toUpperCase_unit s)"

text \<open>\<open>s.charAt(i)\<close> is the empty string when \<open>i\<close> is out of range.\<close>

definition charAt :: "string \<Rightarrow> nat \<Rightarrow> string" where
  "charAt s i = (if i < length s then [s ! i] else [])"

text \<open>\<open>s.slice(i)\<close> for a non-negative \<open>i\<close>.\<close>

definition slice :: "string \<Rightarrow> nat \<Rightarrow> string" where
  "slice s i = drop i s"

text \<open>
  \<open>s.split(sep)\<close> for a separator of one character: the empty string gives one empty
  word, and two separators in a row give an empty word between them.
\<close>

fun js_split :: "char \<Rightarrow> string \<Rightarrow> string list" where
  "js_split sep [] = [[]]"
| "js_split sep (c # cs) =
     (if c = sep then [] # js_split sep cs
      else (case js_split sep cs of
              [] \<Rightarrow> [[c]]
            | w # ws \<Rightarrow> (c # w) # ws))"

text \<open>\<open>ws.join(sep)\<close>.\<close>

fun js_join :: "'a list \<Rightarrow> 'a list list \<Rightarrow> 'a list" where
  "js_join sep [] = []"
| "js_join sep [w] = w"
| "js_join sep (w # v # ws) = w @ sep @ js_join sep (v # ws)"

text \<open>A non-negative integer inside a template literal: its decimal digits.\<close>

definition digit_char :: "nat \<Rightarrow> char" where
  "digit_char d = char_of (48 + d)"

fun num_to_string :: "nat \<Rightarrow> string" where
  "num_to_string n =
     (if n < 10 then [digit_char n]
      else num_to_string (n div 10) @ [digit_char (n mod 10)])"

declare num_to_string.simps [simp del]

text \<open>
  A possibly undefined string inside a template literal: \<open>undefined\<close> is written out
  as the nine letters of its name.
\<close>

definition interpolate :: "string option \<Rightarrow> string" where
  "interpolate v = (case v of None \<Rightarrow> ''undefined'' | Some s \<Rightarrow> s)"

text \<open>
  Truthiness of an optional string, as \<open>x ? a : b\<close>, \<open>x || d\<close> and \<open>!x\<close> test it:
  \<open>undefined\<close> and the empty string are falsy.
\<close>

definition truthy :: "string option \<Rightarrow> bool" where
  "truthy v = (case v of None \<Rightarrow> False | Some s \<Rightarrow> s \<noteq> [])"


section \<open>Data model\<close>

text \<open>
  The configuration object. The five keys below are the ones \<open>card.ts\<close> reads; every
  other key of the object lives in the extension part of the record, which the spread
  of \<open>setConfig\<close> carries over and deep equality compares.
\<close>

record Config =
  area :: string
  label :: "string option"
  unit :: "string option"
  temperature_sensor :: "string option"
  humidity_sensor :: "string option"

text \<open>The live state of one entity; \<open>state\<close> is its value as text.\<close>

record State =
  state :: string

record Device =
  device_area_id :: "string option"

record Entity =
  entity_area_id :: "string option"
  entity_device_id :: "string option"

text \<open>
  The host snapshot. \<open>card.ts\<close> reads the keys of \<open>devices\<close> and \<open>entities\<close> itself
  and reaches the live states through the helper \<open>getState\<close> only.
\<close>

record HomeAssistant =
  states :: "(string \<times> State) list"
  devices :: "(string \<times> Device) list"
  entities :: "(string \<times> Entity) list"

datatype error = TypeError

text \<open>
  The reactive fields of the element, each named after the private field it stands for.
  \<open>None\<close> is a field that has never been assigned. \<^typ>\<open>'e\<close> is the type
  \<open>EntityInformation\<close>, compared by value.
\<close>

record ('z, 'e) RoomSummaryCard =
  card_config :: "'z Config_scheme option"
  card_states :: "'e list option"
  card_roomEntity :: "'e option"
  card_problemEntities :: "string list"
  card_problemExists :: bool
  card_hass :: "HomeAssistant option"

text \<open>The element as its constructor and field initialisers leave it.\<close>

definition new_card :: "('z, 'e) RoomSummaryCard" where
  "new_card =
     \<lparr> card_config = None, card_states = None, card_roomEntity = None,
       card_problemEntities = [], card_problemExists = False, card_hass = None \<rparr>"

text \<open>
  The functions imported from \<open>./helpers\<close>, taken as parameters. Each is a total, pure
  function of its arguments. \<open>getIconEntities\<close> and \<open>getRoomEntity\<close> receive the held
  configuration as it is, which is \<open>undefined\<close> before the first \<open>setConfig\<close>.
\<close>

record ('z, 'e) helpers =
  getState :: "HomeAssistant \<Rightarrow> string option \<Rightarrow> State option"
  getDevice :: "HomeAssistant \<Rightarrow> string \<Rightarrow> Device"
  getEntity :: "HomeAssistant \<Rightarrow> string \<Rightarrow> Entity"
  getIconEntities :: "HomeAssistant \<Rightarrow> 'z Config_scheme option \<Rightarrow> 'e list"
  getRoomEntity :: "HomeAssistant \<Rightarrow> 'z Config_scheme option \<Rightarrow> 'e"
  getProblemEntities :: "HomeAssistant \<Rightarrow> string \<Rightarrow> string list \<times> bool"

text \<open>
  A reactive field that asks the host for a new render pass. A field decorated with
  \<open>@state()\<close> does so when it is assigned a value that is not identical to the one it
  holds: an object or array that was just built is never identical to the held one, a
  boolean is identical exactly when it is equal. \<open>_hass\<close> is not reactive.
\<close>

datatype reactive = F_config | F_states | F_roomEntity | F_problemEntities | F_problemExists


section \<open>Configuration and state pushes\<close>

text \<open>
  \<open>setConfig\<close>: the two sensor ids derived from \<open>area\<close>, overridden by the keys the
  supplied object has; the result is stored unless it is deeply equal to the held one.
  \<open>equal\<close> (fast-deep-equal) on plain data is equality of values.
\<close>

definition cardConfig :: "'z Config_scheme \<Rightarrow> 'z Config_scheme" where
  "cardConfig config =
     config \<lparr> humidity_sensor :=
                (case humidity_sensor config of
                   None \<Rightarrow> Some (''sensor.'' @ area config @ ''_climate_humidity'')
                 | Some v \<Rightarrow> Some v),
              temperature_sensor :=
                (case temperature_sensor config of
                   None \<Rightarrow> Some (''sensor.'' @ area config @ ''_climate_air_temperature'')
                 | Some v \<Rightarrow> Some v) \<rparr>"

definition setConfig ::
  "'z Config_scheme \<Rightarrow> ('z, 'e) RoomSummaryCard \<Rightarrow> reactive list \<times> ('z, 'e) RoomSummaryCard" where
  "setConfig config c =
     (if Some (cardConfig config) \<noteq> card_config c
      then ([F_config], c \<lparr> card_config := Some (cardConfig config) \<rparr>)
      else ([], c))"

text \<open>
  The \<open>hass\<close> setter. It returns the error it raised, if any, the render requests it
  made, in order, and the element afterwards. Reading \<open>this._config.area\<close> raises a
  \<open>TypeError\<close> while no configuration is held; by then \<open>_hass\<close> has been stored and the
  two helpers that take the configuration have been called.
\<close>

definition set_hass ::
  "('z, 'e) helpers \<Rightarrow> HomeAssistant \<Rightarrow> ('z, 'e) RoomSummaryCard
     \<Rightarrow> error option \<times> reactive list \<times> ('z, 'e) RoomSummaryCard" where
  "set_hass H hass c =
     (let c0 = c \<lparr> card_hass := Some hass \<rparr>;
          sts = getIconEntities H hass (card_config c0);
          roomEntity = getRoomEntity H hass (card_config c0)
      in case card_config c0 of
           None \<Rightarrow> (Some TypeError, [], c0)
         | Some cfg \<Rightarrow>
             (let (problemEntities, problemExists) = getProblemEntities H hass (area cfg);
                  t1 = (if problemExists \<noteq> card_problemExists c0 then [F_problemExists] else []);
                  c1 = c0 \<lparr> card_problemExists := problemExists \<rparr>;
                  (t2, c2) = (if Some roomEntity \<noteq> card_roomEntity c1
                              then ([F_roomEntity], c1 \<lparr> card_roomEntity := Some roomEntity \<rparr>)
                              else ([], c1));
                  (t3, c3) = (if Some sts \<noteq> card_states c2
                              then ([F_states], c2 \<lparr> card_states := Some sts \<rparr>)
                              else ([], c2));
                  (t4, c4) = (if problemEntities \<noteq> card_problemEntities c3
                              then ([F_problemEntities],
                                    c3 \<lparr> card_problemEntities := problemEntities \<rparr>)
                              else ([], c3))
              in (None, t1 @ t2 @ t3 @ t4, c4)))"


section \<open>Rendering\<close>

text \<open>
  What the templates of \<open>./styles\<close> and \<open>createStateIcon\<close> produce is kept as the call
  that produces it, with its arguments. \<open>TextStyle\<close> is the \<open>textStyle\<close> of
  \<open>getEntityIconStyles\<close> on the room entity's state, \<open>CardStyles\<close> the result of
  \<open>getCardStyles\<close>.
\<close>

datatype ('z, 'e) style =
    TextStyle 'e
  | CardStyles "HomeAssistant option" "'z Config_scheme option" 'e

datatype 'e StateIcon = createStateIcon "HomeAssistant option" 'e "string list"



text \<open>The \<open>ha-icon\<close> element of the problem indicator.\<close>

record ProblemIndicator =
  badge_icon :: string
  badge_class :: string
  badge_style :: string

text \<open>
  The card template: the text of the name region, of the label region and of its
  statistics span, the entity both regions act on, the icon cells and the indicator
  (\<open>None\<close> is lit's \<open>nothing\<close>).
\<close>

record ('z, 'e) CardTemplate =
  cardStyle :: "('z, 'e) style"
  textStyle :: "('z, 'e) style"
  areaName :: code_units
  actionEntity :: 'e
  labelText :: code_units
  statsText :: string
  roomIcon :: "'e StateIcon"
  entityIcons :: "'e StateIcon list"
  problemIndicator :: "ProblemIndicator option"

datatype ('z, 'e) template = EmptyTemplate | Card "('z, 'e) CardTemplate"

text \<open>\<open>_formatAreaName\<close>.\<close>

definition formatAreaName :: "('z, 'e) RoomSummaryCard \<Rightarrow> error + code_units" where
  "formatAreaName c =
     (case card_config c of
        None \<Rightarrow> Inl TypeError
      | Some cfg \<Rightarrow>
          Inr (js_join (units '' '')
                 (map (\<lambda>w. toUpperCase (charAt w 0) @ units (slice w 1))
                      (js_split (CHR ''_'') (area cfg)))))"

text \<open>\<open>_getLabel\<close>. The test \<open>!this._hass\<close> comes before the configuration is read.\<close>

definition getLabel ::
  "('z, 'e) helpers \<Rightarrow> ('z, 'e) RoomSummaryCard \<Rightarrow> error + code_units" where
  "getLabel H c =
     (case card_hass c of
        None \<Rightarrow> Inr []
      | Some hass \<Rightarrow>
          (case card_config c of
             None \<Rightarrow> Inl TypeError
           | Some cfg \<Rightarrow>
               if area cfg = [] then Inr []
               else
                 (let sensorTemp = map_option state (getState H hass (temperature_sensor cfg));
                      humidity = map_option state (getState H hass (humidity_sensor cfg));
                      u = toUpperCase (if truthy (unit cfg) then the (unit cfg) else ''C'')
                  in Inr (units (interpolate sensorTemp @ [degree_sign]) @ u
                          @ units ('' - '' @ interpolate humidity @ ''%'')))))"

text \<open>
  \<open>_getAreaStatistics\<close>. The filter on \<open>count.length\<close> tests the length of each
  two-element pair, which is 2.
\<close>

definition getAreaStatistics ::
  "('z, 'e) helpers \<Rightarrow> ('z, 'e) RoomSummaryCard \<Rightarrow> error + string" where
  "getAreaStatistics H c =
     (case card_hass c of
        None \<Rightarrow> Inr []
      | Some hass \<Rightarrow>
          (case card_config c of
             None \<Rightarrow> Inl TypeError
           | Some cfg \<Rightarrow>
               if area cfg = [] then Inr []
               else
                 (let devs = filter (\<lambda>k. device_area_id (getDevice H hass k) = Some (area cfg))
                                    (map fst (devices hass));
                      ents = filter (\<lambda>k. let entity = getEntity H hass k
                                          in entity_area_id entity = Some (area cfg)
                                             \<or> (case entity_device_id entity of
                                                   None \<Rightarrow> False
                                                 | Some d \<Rightarrow> d \<in> set devs))
                                    (map fst (entities hass))
                  in Inr (js_join '' ''
                            (map (\<lambda>(count, type). num_to_string count @ '' '' @ type)
                               (filter (\<lambda>count. (2::nat) > 0)
                                  [(length devs, ''devices''),
                                   (length ents, ''entities'')]))))))"

text \<open>\<open>_renderProblemIndicator\<close>.\<close>

definition renderProblemIndicator :: "('z, 'e) RoomSummaryCard \<Rightarrow> ProblemIndicator option" where
  "renderProblemIndicator c =
     (if length (card_problemEntities c) = 0 then None
      else Some \<lparr> badge_icon = ''mdi:numeric-'' @ num_to_string (length (card_problemEntities c)),
                  badge_class = ''status-entities'',
                  badge_style = ''background-color: ''
                     @ (if card_problemExists c then ''rgba(var(--color-red), 0.8)''
                        else ''rgba(var(--color-green), 0.6)'') \<rparr>)"

text \<open>The icon cells of the held list: \<open>this._states.map((s, i) => ...)\<close>.\<close>

definition entityCells :: "HomeAssistant option \<Rightarrow> 'e list \<Rightarrow> 'e StateIcon list" where
  "entityCells h sts =
     map (\<lambda>(i, s). createStateIcon h s [''entity'', ''entity-'' @ num_to_string (i + 1)])
         (enumerate 0 sts)"

text \<open>
  The name shown: the configured label when there is a configuration and its label is
  truthy, the formatted area name otherwise.
\<close>

definition displayName :: "('z, 'e) RoomSummaryCard \<Rightarrow> error + code_units" where
  "displayName c =
     (if (case card_config c of None \<Rightarrow> False | Some cfg \<Rightarrow> truthy (label cfg))
      then Inr (units (the (label (the (card_config c)))))
      else formatAreaName c)"

text \<open>
  \<open>render\<close>. It reads \<open>this._roomEntity.state\<close> first and the configuration after, and
  each raises a \<open>TypeError\<close> on a field that is not set.
\<close>

definition render ::
  "('z, 'e) helpers \<Rightarrow> ('z, 'e) RoomSummaryCard \<Rightarrow> error + ('z, 'e) template" where
  "render H c =
     (case card_states c of
        None \<Rightarrow> Inr EmptyTemplate
      | Some sts \<Rightarrow>
          (case card_roomEntity c of
             None \<Rightarrow> Inl TypeError
           | Some room \<Rightarrow>
               (case displayName c of
                  Inl e \<Rightarrow> Inl e
                | Inr name \<Rightarrow>
                    (case getLabel H c of
                       Inl e \<Rightarrow> Inl e
                     | Inr lbl \<Rightarrow>
                         (case getAreaStatistics H c of
                            Inl e \<Rightarrow> Inl e
                          | Inr stats \<Rightarrow>
                              Inr (Card
                                \<lparr> cardStyle = CardStyles (card_hass c) (card_config c) room,
                                  textStyle = TextStyle room,
                                  areaName = name,
                                  actionEntity = room,
                                  labelText = lbl,
                                  statsText = stats,
                                  roomIcon = createStateIcon (card_hass c) room [''room''],
                                  entityIcons = entityCells (card_hass c) sts,
                                  problemIndicator = renderProblemIndicator c \<rparr>))))))"


section \<open>A run of the card on a kitchen\<close>

text \<open>
  Modelled from the spec: the module \<open>./helpers\<close> is not among the sources. The
  theorems take its functions as parameters; the examples run on the instance below,
  with an entity represented by its identifier. It follows the specification where
  the specification speaks: \<open>getState\<close> looks the identifier up among the live states
  and is undefined when there is none, \<open>getDevice\<close> and \<open>getEntity\<close> are registry
  lookups, the icon entities come in a fixed order, and a problem exists when one of
  the problem entities is in its active state. The rest is chosen for the examples: the
  icon entities are the light and the fan switch of the area and the room entity is
  the light; the problem entities are the registered entities of the area whose
  identifier begins with \<open>problem.\<close>, active when their live state is \<open>on\<close>.
\<close>

definition sample_helpers :: "(unit, string) helpers" where
  "sample_helpers =
     \<lparr> getState = (\<lambda>h i. case i of None \<Rightarrow> None | Some k \<Rightarrow> map_of (states h) k),
       getDevice = (\<lambda>h k. case map_of (devices h) k of
                             None \<Rightarrow> \<lparr> device_area_id = None \<rparr>
                           | Some d \<Rightarrow> d),
       getEntity = (\<lambda>h k. case map_of (entities h) k of
                             None \<Rightarrow> \<lparr> entity_area_id = None, entity_device_id = None \<rparr>
                           | Some e \<Rightarrow> e),
       getIconEntities = (\<lambda>h cfg. case cfg of
                             None \<Rightarrow> []
                           | Some g \<Rightarrow> [''light.'' @ area g @ ''_light'',
                                       ''switch.'' @ area g @ ''_fan'']),
       getRoomEntity = (\<lambda>h cfg. case cfg of
                             None \<Rightarrow> ''light.undefined_light''
                           | Some g \<Rightarrow> ''light.'' @ area g @ ''_light''),
       getProblemEntities = (\<lambda>h a.
          (let ps = filter (\<lambda>k. take 8 k = ''problem.''
                               \<and> map_option entity_area_id (map_of (entities h) k) = Some (Some a))
                           (map fst (entities h))
           in (ps, \<exists>k \<in> set ps. map_option state (map_of (states h) k) = Some ''on''))) \<rparr>"

text \<open>The configuration \<open>{area: "kitchen"}\<close> as the dashboard supplies it.\<close>

definition kitchen_config :: Config where
  "kitchen_config =
     \<lparr> area = ''kitchen'', label = None, unit = None,
       temperature_sensor = None, humidity_sensor = None \<rparr>"

text \<open>A snapshot in which both climate sensors of the kitchen report.\<close>

definition kitchen_hass :: HomeAssistant where
  "kitchen_hass =
     \<lparr> states = [(''sensor.kitchen_climate_air_temperature'', \<lparr> state = ''21.5'' \<rparr>),
                 (''sensor.kitchen_climate_humidity'', \<lparr> state = ''40'' \<rparr>),
                 (''problem.kitchen_smoke'', \<lparr> state = ''on'' \<rparr>)],
       devices = [(''dev1'', \<lparr> device_area_id = Some ''kitchen'' \<rparr>)],
       entities = [(''problem.kitchen_smoke'',
                      \<lparr> entity_area_id = Some ''kitchen'', entity_device_id = None \<rparr>),
                   (''light.kitchen_light'',
                      \<lparr> entity_area_id = None, entity_device_id = Some ''dev1'' \<rparr>)] \<rparr>"

text \<open>A snapshot with no live state at all: the climate sensors do not report.\<close>

definition silent_hass :: HomeAssistant where
  "silent_hass = \<lparr> states = [], devices = [], entities = [] \<rparr>"

text \<open>The card after \<open>setConfig\<close> with the kitchen configuration and one state push.\<close>

definition kitchen_card :: "HomeAssistant \<Rightarrow> (unit, string) RoomSummaryCard" where
  "kitchen_card h = snd (snd (set_hass sample_helpers h (snd (setConfig kitchen_config new_card))))"

text \<open>
  A snapshot in which the smoke problem of the kitchen is registered and its live
  state is \<open>off\<close>.
\<close>

definition quiet_hass :: HomeAssistant where
  "quiet_hass =
     \<lparr> states = [(''problem.kitchen_smoke'', \<lparr> state = ''off'' \<rparr>)],
       devices = [],
       entities = [(''problem.kitchen_smoke'',
                      \<lparr> entity_area_id = Some ''kitchen'', entity_device_id = None \<rparr>)] \<rparr>"

text \<open>A living room whose configuration sets the label to the empty string.\<close>

definition living_config :: Config where
  "living_config =
     \<lparr> area = ''living_room'', label = Some [], unit = None,
       temperature_sensor = None, humidity_sensor = None \<rparr>"

definition living_card :: "(unit, string) RoomSummaryCard" where
  "living_card =
     snd (snd (set_hass sample_helpers silent_hass (snd (setConfig living_config new_card))))"


section \<open>The room name and the count as the specification words them\<close>

text \<open>
  The room name in the specification's words: the area identifier split on the
  underscore, the first character of each word uppercased, the words joined by single
  spaces.
\<close>

fun capitalize :: "string \<Rightarrow> code_units" where
  "capitalize [] = []"
| "capitalize (ch # rest) = toUpperCase_unit ch @ units rest"

definition spec_area_name :: "string \<Rightarrow> code_units" where
  "spec_area_name a = js_join (units '' '') (map capitalize (js_split (CHR ''_'') a))"

text \<open>The number that a string of decimal digits denotes.\<close>

definition digits_value :: "string \<Rightarrow> nat" where
  "digits_value s = foldl (\<lambda>a ch. 10 * a + (of_char ch - 48)) 0 s"


section \<open>The configured icon entities\<close>







section \<open>State pushes\<close>

text \<open>
  With a configuration held, the setter runs to its end: every field ends up holding
  the derived value, and the render requests are those of the fields whose held value
  differed from it.
\<close>

lemma set_hass_configured:
  assumes "card_config c = Some cfg"
  shows "set_hass H hass c =
     (None,
      (if snd (getProblemEntities H hass (area cfg)) \<noteq> card_problemExists c
       then [F_problemExists] else [])
      @ (if Some (getRoomEntity H hass (Some cfg)) \<noteq> card_roomEntity c
         then [F_roomEntity] else [])
      @ (if Some (getIconEntities H hass (Some cfg)) \<noteq> card_states c
         then [F_states] else [])
      @ (if fst (getProblemEntities H hass (area cfg)) \<noteq> card_problemEntities c
         then [F_problemEntities] else []),
      c \<lparr> card_hass := Some hass,
          card_problemExists := snd (getProblemEntities H hass (area cfg)),
          card_roomEntity := Some (getRoomEntity H hass (Some cfg)),
          card_states := Some (getIconEntities H hass (Some cfg)),
          card_problemEntities := fst (getProblemEntities H hass (area cfg)) \<rparr>)"
  using assms
  by (cases "getProblemEntities H hass (area cfg)") (auto simp: set_hass_def Let_def)

lemma set_hass_unconfigured:
  assumes "card_config c = None"
  shows "set_hass H hass c = (Some TypeError, [], c \<lparr> card_hass := Some hass \<rparr>)"
  using assms by (simp add: set_hass_def)

lemma kitchen_configured:
  "card_config (kitchen_card h) = Some (cardConfig kitchen_config)"
  by (simp add: kitchen_card_def setConfig_def new_card_def set_hass_configured)

lemma cardConfig_kitchen:
  "cardConfig kitchen_config =
     \<lparr> area = ''kitchen'', label = None, unit = None,
       temperature_sensor = Some ''sensor.kitchen_climate_air_temperature'',
       humidity_sensor = Some ''sensor.kitchen_climate_humidity'' \<rparr>"
  by (simp add: cardConfig_def kitchen_config_def)

lemma kitchen_card_kitchen_hass:
  "kitchen_card kitchen_hass =
     \<lparr> card_config = Some (cardConfig kitchen_config),
       card_states = Some [''light.kitchen_light'', ''switch.kitchen_fan''],
       card_roomEntity = Some ''light.kitchen_light'',
       card_problemEntities = [''problem.kitchen_smoke''],
       card_problemExists = True,
       card_hass = Some kitchen_hass \<rparr>"
  by (simp add: kitchen_card_def setConfig_def new_card_def set_hass_configured
      cardConfig_kitchen sample_helpers_def)
     (simp add: kitchen_hass_def)

lemma kitchen_card_silent_hass:
  "kitchen_card silent_hass =
     \<lparr> card_config = Some (cardConfig kitchen_config),
       card_states = Some [''light.kitchen_light'', ''switch.kitchen_fan''],
       card_roomEntity = Some ''light.kitchen_light'',
       card_problemEntities = [],
       card_problemExists = False,
       card_hass = Some silent_hass \<rparr>"
  by (simp add: kitchen_card_def setConfig_def new_card_def set_hass_configured
      cardConfig_kitchen sample_helpers_def)
     (simp add: silent_hass_def)

text \<open>
  C1, as the specification words it, fails for a state push to an element that holds
  no configuration: the icon list and the room entity that the helpers derive differ
  from the fields, which are unset, yet the setter raises before it compares them and
  replaces neither.
\<close>

theorem set_hass_unconfigured_replaces_nothing:
  "card_config (new_card :: (unit, string) RoomSummaryCard) = None
   \<and> Some (getIconEntities sample_helpers kitchen_hass
             (card_config (new_card :: (unit, string) RoomSummaryCard)))
       \<noteq> card_states (new_card :: (unit, string) RoomSummaryCard)
   \<and> card_states (snd (snd (set_hass sample_helpers kitchen_hass new_card)))
       = card_states (new_card :: (unit, string) RoomSummaryCard)
   \<and> Some (getRoomEntity sample_helpers kitchen_hass
             (card_config (new_card :: (unit, string) RoomSummaryCard)))
       \<noteq> card_roomEntity (new_card :: (unit, string) RoomSummaryCard)
   \<and> card_roomEntity (snd (snd (set_hass sample_helpers kitchen_hass new_card)))
       = card_roomEntity (new_card :: (unit, string) RoomSummaryCard)
   \<and> fst (set_hass sample_helpers kitchen_hass (new_card :: (unit, string) RoomSummaryCard))
       = Some TypeError"
proof -
  have n: "card_config (new_card :: (unit, string) RoomSummaryCard) = None"
    by (simp add: new_card_def)
  show ?thesis
    unfolding set_hass_unconfigured [OF n] by (simp add: new_card_def)
qed

text \<open>
  C1, amended. On a state push to an element that holds a configuration, the setter
  completes; the room entity, the icon-entity list and the problem-entity list are
  each replaced by the freshly derived value if and only if that value differs from
  the held one, and request a render exactly then; the problem flag takes the derived
  value, which changes it exactly when the two differ, and requests a render exactly
  then; the held configuration is not derived again by a state push and stays as it
  is, with no render request.
\<close>

theorem set_hass_gates_each_field:
  assumes "card_config c = Some cfg"
    and "set_hass H hass c = (err, requests, c')"
    and "getProblemEntities H hass (area cfg) = (problemEntities, problemExists)"
  shows "err = None
    \<and> card_config c' = card_config c \<and> F_config \<notin> set requests
    \<and> card_roomEntity c' =
        (if Some (getRoomEntity H hass (Some cfg)) \<noteq> card_roomEntity c
         then Some (getRoomEntity H hass (Some cfg)) else card_roomEntity c)
    \<and> (F_roomEntity \<in> set requests
          \<longleftrightarrow> Some (getRoomEntity H hass (Some cfg)) \<noteq> card_roomEntity c)
    \<and> card_states c' =
        (if Some (getIconEntities H hass (Some cfg)) \<noteq> card_states c
         then Some (getIconEntities H hass (Some cfg)) else card_states c)
    \<and> (F_states \<in> set requests
          \<longleftrightarrow> Some (getIconEntities H hass (Some cfg)) \<noteq> card_states c)
    \<and> card_problemEntities c' =
        (if problemEntities \<noteq> card_problemEntities c
         then problemEntities else card_problemEntities c)
    \<and> (F_problemEntities \<in> set requests \<longleftrightarrow> problemEntities \<noteq> card_problemEntities c)
    \<and> card_problemExists c' =
        (if problemExists \<noteq> card_problemExists c
         then problemExists else card_problemExists c)
    \<and> (F_problemExists \<in> set requests \<longleftrightarrow> problemExists \<noteq> card_problemExists c)"
proof -
  note run = assms(2) [unfolded set_hass_configured [OF assms(1)] assms(3), simplified]
  from run have e: "err = None" by simp
  from run have r: "requests =
      (if problemExists \<noteq> card_problemExists c then [F_problemExists] else [])
      @ (if Some (getRoomEntity H hass (Some cfg)) \<noteq> card_roomEntity c
         then [F_roomEntity] else [])
      @ (if Some (getIconEntities H hass (Some cfg)) \<noteq> card_states c
         then [F_states] else [])
      @ (if problemEntities \<noteq> card_problemEntities c then [F_problemEntities] else [])"
    by auto
  from run have c': "c' = c \<lparr> card_hass := Some hass,
          card_problemExists := problemExists,
          card_roomEntity := Some (getRoomEntity H hass (Some cfg)),
          card_states := Some (getIconEntities H hass (Some cfg)),
          card_problemEntities := problemEntities \<rparr>"
    by auto
  show ?thesis
    unfolding e r c' by simp
qed

text \<open>
  The kitchen card, holding the snapshot in which the smoke problem is on, receives the
  snapshot with no live state: the flag and the problem list change and request a
  render, the room entity and the icon list are equal to the held ones and do not.
\<close>

theorem set_hass_gates_each_field_witness:
  "card_config (kitchen_card kitchen_hass) = Some (cardConfig kitchen_config)
   \<and> getProblemEntities sample_helpers silent_hass (area (cardConfig kitchen_config))
       = ([], False)
   \<and> fst (set_hass sample_helpers silent_hass (kitchen_card kitchen_hass)) = None
   \<and> fst (snd (set_hass sample_helpers silent_hass (kitchen_card kitchen_hass)))
       = [F_problemExists, F_problemEntities]
   \<and> card_roomEntity (snd (snd (set_hass sample_helpers silent_hass (kitchen_card kitchen_hass))))
       = card_roomEntity (kitchen_card kitchen_hass)
   \<and> card_problemEntities
        (snd (snd (set_hass sample_helpers silent_hass (kitchen_card kitchen_hass)))) = []"
proof -
  have p: "getProblemEntities sample_helpers silent_hass (area (cardConfig kitchen_config))
             = ([], False)"
    by (simp add: sample_helpers_def silent_hass_def)
  obtain err requests c' where
    run: "set_hass sample_helpers silent_hass (kitchen_card kitchen_hass) = (err, requests, c')"
    by (cases "set_hass sample_helpers silent_hass (kitchen_card kitchen_hass)") auto
  have g: "getRoomEntity sample_helpers silent_hass (Some (cardConfig kitchen_config))
             = ''light.kitchen_light''"
      "getIconEntities sample_helpers silent_hass (Some (cardConfig kitchen_config))
             = [''light.kitchen_light'', ''switch.kitchen_fan'']"
    by (simp_all add: sample_helpers_def cardConfig_kitchen)
  have k: "card_config (kitchen_card kitchen_hass) = Some (cardConfig kitchen_config)"
    by (rule kitchen_configured)
  from run set_hass_configured [OF k, of sample_helpers silent_hass]
  have "requests = [F_problemExists, F_problemEntities]"
    by (simp add: p g kitchen_card_kitchen_hass)
  with set_hass_gates_each_field [OF k run p] run p k
  show ?thesis
    by (simp add: g kitchen_card_kitchen_hass)
qed

text \<open>
  C3. Pushing the same snapshot a second time requests no render and leaves the element
  exactly as the first push left it; the second push ends as the first did.
\<close>

theorem set_hass_twice_same_snapshot:
  "set_hass H hass (snd (snd (set_hass H hass c)))
     = (fst (set_hass H hass c), [], snd (snd (set_hass H hass c)))"
proof (cases "card_config c")
  case None
  then show ?thesis by (simp add: set_hass_unconfigured)
next
  case (Some cfg)
  then show ?thesis by (simp add: set_hass_configured)
qed


section \<open>A state push before the configuration\<close>

text \<open>
  C2, as the specification words it, fails: pushed to an element that holds no
  configuration, the setter does not complete. Even with helpers that accept the
  undefined configuration, reading \<open>this._config.area\<close> raises a \<open>TypeError\<close>.
\<close>

theorem set_hass_before_setConfig_raises:
  "card_config (new_card :: (unit, string) RoomSummaryCard) = None
   \<and> fst (set_hass sample_helpers kitchen_hass (new_card :: (unit, string) RoomSummaryCard))
       = Some TypeError
   \<and> fst (set_hass sample_helpers kitchen_hass (new_card :: (unit, string) RoomSummaryCard))
       \<noteq> None"
  by (simp add: set_hass_unconfigured new_card_def)

text \<open>
  C2, amended. A state push to an element that holds no configuration stores the
  snapshot and then raises a \<open>TypeError\<close>; it requests no render and changes no other
  field, so the element still holds no configuration and, when it held no icon list
  before, none after, and \<open>render\<close> returns the empty template without failing.
\<close>

theorem set_hass_before_setConfig:
  assumes "card_config c = None" and "card_states c = None"
  shows "set_hass H hass c = (Some TypeError, [], c \<lparr> card_hass := Some hass \<rparr>)
    \<and> card_config (snd (snd (set_hass H hass c))) = None
    \<and> card_states (snd (snd (set_hass H hass c))) = None
    \<and> render H (snd (snd (set_hass H hass c))) = Inr EmptyTemplate"
  using assms by (simp add: set_hass_unconfigured render_def)

theorem set_hass_before_setConfig_witness:
  "card_config (new_card :: (unit, string) RoomSummaryCard) = None
   \<and> card_states (new_card :: (unit, string) RoomSummaryCard) = None
   \<and> set_hass sample_helpers kitchen_hass new_card
       = (Some TypeError, [], new_card \<lparr> card_hass := Some kitchen_hass \<rparr>)
   \<and> render sample_helpers (snd (snd (set_hass sample_helpers kitchen_hass new_card)))
       = Inr EmptyTemplate"
proof -
  have a: "card_config (new_card :: (unit, string) RoomSummaryCard) = None"
    and b: "card_states (new_card :: (unit, string) RoomSummaryCard) = None"
    by (simp_all add: new_card_def)
  from set_hass_before_setConfig [OF a b, of sample_helpers kitchen_hass] a b
  show ?thesis by blast
qed


section \<open>Configuration\<close>

text \<open>
  C5. After \<open>setConfig\<close> the element holds the merged configuration, in which each of
  the two sensor ids is the one the supplied configuration gives and, when it gives
  none, the one derived from \<open>area\<close>; for the area \<open>kitchen\<close> with no override these
  are \<open>sensor.kitchen_climate_air_temperature\<close> and \<open>sensor.kitchen_climate_humidity\<close>.
\<close>

theorem setConfig_sensor_defaults:
  "card_config (snd (setConfig config c)) = Some (cardConfig config)
   \<and> area (cardConfig config) = area config
   \<and> temperature_sensor (cardConfig config) =
       Some (case temperature_sensor config of
               None \<Rightarrow> ''sensor.'' @ area config @ ''_climate_air_temperature''
             | Some v \<Rightarrow> v)
   \<and> humidity_sensor (cardConfig config) =
       Some (case humidity_sensor config of
               None \<Rightarrow> ''sensor.'' @ area config @ ''_climate_humidity''
             | Some v \<Rightarrow> v)
   \<and> (area config = ''kitchen'' \<and> temperature_sensor config = None
        \<and> humidity_sensor config = None
      \<longrightarrow> temperature_sensor (cardConfig config)
            = Some ''sensor.kitchen_climate_air_temperature''
          \<and> humidity_sensor (cardConfig config) = Some ''sensor.kitchen_climate_humidity'')"
  by (auto simp: setConfig_def cardConfig_def split: option.splits)

theorem setConfig_sensor_defaults_witness:
  "area kitchen_config = ''kitchen'' \<and> temperature_sensor kitchen_config = None
   \<and> humidity_sensor kitchen_config = None
   \<and> card_config (snd (setConfig kitchen_config (new_card :: (unit, string) RoomSummaryCard)))
       = Some (cardConfig kitchen_config)
   \<and> temperature_sensor (cardConfig kitchen_config)
       = Some ''sensor.kitchen_climate_air_temperature''
   \<and> humidity_sensor (cardConfig kitchen_config) = Some ''sensor.kitchen_climate_humidity''"
proof -
  have k: "area kitchen_config = ''kitchen'' \<and> temperature_sensor kitchen_config = None
      \<and> humidity_sensor kitchen_config = None"
    by (simp add: kitchen_config_def)
  from setConfig_sensor_defaults [of kitchen_config "new_card :: (unit, string) RoomSummaryCard"] k
  show ?thesis by simp
qed

text \<open>
  C6. \<open>setConfig\<close> changes the element, and requests a render, only if the merged
  configuration differs from the held one, and it does both whenever they differ; the
  element holds the merged configuration afterwards, so giving the same configuration
  again changes nothing and requests nothing.
\<close>

theorem setConfig_gate:
  "(snd (setConfig config c) \<noteq> c \<longrightarrow> Some (cardConfig config) \<noteq> card_config c)
   \<and> (fst (setConfig config c) \<noteq> [] \<longrightarrow> Some (cardConfig config) \<noteq> card_config c)
   \<and> (Some (cardConfig config) \<noteq> card_config c
      \<longrightarrow> setConfig config c = ([F_config], c \<lparr> card_config := Some (cardConfig config) \<rparr>))
   \<and> card_config (snd (setConfig config c)) = Some (cardConfig config)
   \<and> setConfig config (snd (setConfig config c)) = ([], snd (setConfig config c))"
  by (simp add: setConfig_def)

theorem setConfig_gate_witness:
  "Some (cardConfig kitchen_config) \<noteq> card_config (new_card :: (unit, string) RoomSummaryCard)
   \<and> setConfig kitchen_config (new_card :: (unit, string) RoomSummaryCard)
       = ([F_config], new_card \<lparr> card_config := Some (cardConfig kitchen_config) \<rparr>)
   \<and> setConfig kitchen_config (snd (setConfig kitchen_config new_card))
       = ([], snd (setConfig kitchen_config (new_card :: (unit, string) RoomSummaryCard)))"
proof -
  have d: "Some (cardConfig kitchen_config)
             \<noteq> card_config (new_card :: (unit, string) RoomSummaryCard)"
    by (simp add: new_card_def)
  from setConfig_gate [of kitchen_config "new_card :: (unit, string) RoomSummaryCard"] d
  show ?thesis by blast
qed


section \<open>Facts about the string functions\<close>

lemma digits_value_snoc: "digits_value (s @ [ch]) = 10 * digits_value s + (of_char ch - 48)"
  by (simp add: digits_value_def)

lemma of_char_digit: "d < 10 \<Longrightarrow> of_char (digit_char d) = 48 + d"
  by (simp add: digit_char_def)

text \<open>The digits written for a number denote that number.\<close>

lemma digits_value_num_to_string: "digits_value (num_to_string n) = n"
proof (induction n rule: num_to_string.induct)
  case (1 n)
  show ?case
  proof (cases "n < 10")
    case True
    then show ?thesis
      by (subst num_to_string.simps) (simp add: digits_value_def of_char_digit)
  next
    case False
    with "1" show ?thesis
      by (subst num_to_string.simps) (simp add: digits_value_snoc of_char_digit)
  qed
qed


lemma num_to_string_1: "num_to_string 1 = ''1''"
  by code_simp

text \<open>Splitting on a character and joining on it again gives the string back.\<close>

lemma js_split_nonempty: "js_split sep s \<noteq> []"
  by (induction s) (auto split: list.splits)

lemma js_join_split: "js_join [sep] (js_split sep s) = s"
proof (induction s)
  case Nil
  show ?case by simp
next
  case (Cons c cs)
  obtain w ws where r: "js_split sep cs = w # ws"
    using js_split_nonempty [of sep cs] by (cases "js_split sep cs") auto
  with Cons show ?case
    by (cases ws) auto
qed

lemma js_split_words: "w \<in> set (js_split sep s) \<Longrightarrow> sep \<notin> set w"
  by (induction s arbitrary: w) (auto split: if_splits list.splits)

text \<open>The code's way of capitalising a word is the specification's.\<close>

lemma capitalize_code: "toUpperCase (charAt w 0) @ units (slice w 1) = capitalize w"
  by (cases w) (simp_all add: toUpperCase_def charAt_def slice_def units_def)

lemma toUpperCase_C: "toUpperCase ''C'' = units ''C''"
  by (simp add: toUpperCase_def toUpperCase_unit_def units_def)

text \<open>
  The uppercase of single code units: a letter of the basic alphabet, a digit, the
  micro sign, the sharp s, e-acute, the division sign, thorn and y with diaeresis.
\<close>

lemma toUpperCase_unit_table:
  "toUpperCase_unit (CHR ''k'') = [75]"
  "toUpperCase_unit (CHR ''7'') = [55]"
  "toUpperCase_unit (char_of (181::nat)) = [924]"
  "toUpperCase_unit (char_of (223::nat)) = [83, 83]"
  "toUpperCase_unit (char_of (233::nat)) = [201]"
  "toUpperCase_unit (char_of (247::nat)) = [247]"
  "toUpperCase_unit (char_of (254::nat)) = [222]"
  "toUpperCase_unit (char_of (255::nat)) = [376]"
  by (simp_all add: toUpperCase_unit_def)

text \<open>Uppercasing changes no code unit that is not a lowercase letter below 256.\<close>

lemma toUpperCase_unit_fixed:
  assumes "of_char c < (97::nat) \<or> (122 < (of_char c :: nat) \<and> (of_char c :: nat) < 181)
      \<or> (181 < (of_char c :: nat) \<and> (of_char c :: nat) < 223) \<or> (of_char c :: nat) = 247"
  shows "toUpperCase_unit c = [of_char c]"
  using assms by (auto simp: toUpperCase_unit_def Let_def)

lemma formatAreaName_spec:
  "card_config c = Some cfg \<Longrightarrow> formatAreaName c = Inr (spec_area_name (area cfg))"
  by (simp add: formatAreaName_def spec_area_name_def capitalize_code [unfolded One_nat_def])


section \<open>What a rendered card contains\<close>

lemma render_Card:
  assumes "render H c = Inr (Card v)"
  shows "\<exists>sts room cfg.
           card_states c = Some sts \<and> card_roomEntity c = Some room
         \<and> card_config c = Some cfg
         \<and> displayName c = Inr (areaName v)
         \<and> getLabel H c = Inr (labelText v)
         \<and> getAreaStatistics H c = Inr (statsText v)
         \<and> roomIcon v = createStateIcon (card_hass c) room [''room'']
         \<and> entityIcons v = entityCells (card_hass c) sts
         \<and> problemIndicator v = renderProblemIndicator c"
proof -
  from assms obtain sts where s: "card_states c = Some sts"
    by (cases "card_states c") (simp_all add: render_def)
  from assms s obtain room where r: "card_roomEntity c = Some room"
    by (cases "card_roomEntity c") (simp_all add: render_def)
  from assms s r obtain name where n: "displayName c = Inr name"
    by (cases "displayName c") (simp_all add: render_def)
  from assms s r n obtain lbl where l: "getLabel H c = Inr lbl"
    by (cases "getLabel H c") (simp_all add: render_def)
  from assms s r n l obtain stats where a: "getAreaStatistics H c = Inr stats"
    by (cases "getAreaStatistics H c") (simp_all add: render_def)
  from n obtain cfg where g: "card_config c = Some cfg"
    by (cases "card_config c") (simp_all add: displayName_def formatAreaName_def)
  from assms s r n l a have "v =
      \<lparr> cardStyle = CardStyles (card_hass c) (card_config c) room,
        textStyle = TextStyle room, areaName = name, actionEntity = room,
        labelText = lbl, statsText = stats,
        roomIcon = createStateIcon (card_hass c) room [''room''],
        entityIcons = entityCells (card_hass c) sts,
        problemIndicator = renderProblemIndicator c \<rparr>"
    by (simp add: render_def)
  with s r n l a g show ?thesis by simp
qed

text \<open>
  With an icon list, a room entity and a configuration held, \<open>render\<close> does not fail.
\<close>

lemma render_total:
  assumes "card_states c = Some sts" and "card_roomEntity c = Some room"
    and "card_config c = Some cfg"
  shows "\<exists>v. render H c = Inr (Card v)"
proof -
  have n: "\<exists>name. displayName c = Inr name"
    using assms(3)
    by (cases "truthy (label cfg)") (simp_all add: displayName_def formatAreaName_def)
  have l: "\<exists>lbl. getLabel H c = Inr lbl"
    using assms(3) by (cases "card_hass c") (simp_all add: getLabel_def Let_def)
  have a: "\<exists>stats. getAreaStatistics H c = Inr stats"
    using assms(3) by (cases "card_hass c") (simp_all add: getAreaStatistics_def Let_def)
  from n l a obtain name lbl stats where
    "displayName c = Inr name" "getLabel H c = Inr lbl" "getAreaStatistics H c = Inr stats"
    by blast
  with assms show ?thesis
    by (simp add: render_def)
qed

lemma kitchen_card_quiet_hass:
  "kitchen_card quiet_hass =
     \<lparr> card_config = Some (cardConfig kitchen_config),
       card_states = Some [''light.kitchen_light'', ''switch.kitchen_fan''],
       card_roomEntity = Some ''light.kitchen_light'',
       card_problemEntities = [''problem.kitchen_smoke''],
       card_problemExists = False,
       card_hass = Some quiet_hass \<rparr>"
  by (simp add: kitchen_card_def setConfig_def new_card_def set_hass_configured
      cardConfig_kitchen sample_helpers_def)
     (simp add: quiet_hass_def)

lemma kitchen_renders:
  "\<exists>v. render sample_helpers (kitchen_card h) = Inr (Card v)"
proof -
  have "card_states (kitchen_card h) = Some (getIconEntities sample_helpers h
          (Some (cardConfig kitchen_config)))"
    and "card_roomEntity (kitchen_card h) = Some (getRoomEntity sample_helpers h
          (Some (cardConfig kitchen_config)))"
    by (simp_all add: kitchen_card_def setConfig_def new_card_def set_hass_configured)
  then show ?thesis
    using kitchen_configured [of h] by (rule render_total)
qed


section \<open>The climate label\<close>

text \<open>
  C8. With a snapshot and a configuration held, a non-empty area, the unit left unset,
  and the two configured sensors reporting \<open>21.5\<close> and \<open>40\<close>, the label is the twelve
  characters \<open>21.5\<close>, the degree sign, \<open>C - 40%\<close>, and a rendered card shows it.
\<close>

theorem getLabel_formats_climate:
  assumes "card_hass c = Some hass" and "card_config c = Some cfg"
    and "area cfg \<noteq> []" and "unit cfg = None"
    and "getState H hass (temperature_sensor cfg) = Some t" and "state t = ''21.5''"
    and "getState H hass (humidity_sensor cfg) = Some hm" and "state hm = ''40''"
  shows "getLabel H c = Inr (units (''21.5'' @ [degree_sign] @ ''C - 40%''))
    \<and> of_char degree_sign = (176::nat)
    \<and> (\<forall>v. render H c = Inr (Card v)
          \<longrightarrow> labelText v = units (''21.5'' @ [degree_sign] @ ''C - 40%''))"
proof -
  have l: "getLabel H c = Inr (units (''21.5'' @ [degree_sign] @ ''C - 40%''))"
    using assms
    by (simp add: getLabel_def truthy_def interpolate_def toUpperCase_C) (simp add: units_def)
  have d: "of_char degree_sign = (176::nat)"
    by (simp add: degree_sign_def)
  have "labelText v = units (''21.5'' @ [degree_sign] @ ''C - 40%'')"
    if "render H c = Inr (Card v)" for v
    using render_Card [OF that] l by auto
  with l d show ?thesis by blast
qed

theorem getLabel_formats_climate_witness:
  "card_hass (kitchen_card kitchen_hass) = Some kitchen_hass
   \<and> card_config (kitchen_card kitchen_hass) = Some (cardConfig kitchen_config)
   \<and> area (cardConfig kitchen_config) \<noteq> [] \<and> unit (cardConfig kitchen_config) = None
   \<and> map_option state (getState sample_helpers kitchen_hass
         (temperature_sensor (cardConfig kitchen_config))) = Some ''21.5''
   \<and> map_option state (getState sample_helpers kitchen_hass
         (humidity_sensor (cardConfig kitchen_config))) = Some ''40''
   \<and> getLabel sample_helpers (kitchen_card kitchen_hass)
       = Inr (units (''21.5'' @ [degree_sign] @ ''C - 40%''))
   \<and> units (''21.5'' @ [degree_sign] @ ''C - 40%'')
       = [50, 49, 46, 53, 176, 67, 32, 45, 32, 52, 48, 37]"
proof -
  have h: "card_hass (kitchen_card kitchen_hass) = Some kitchen_hass"
    by (simp add: kitchen_card_kitchen_hass)
  have a: "area (cardConfig kitchen_config) \<noteq> []" and u: "unit (cardConfig kitchen_config) = None"
    by (simp_all add: cardConfig_kitchen)
  have t: "getState sample_helpers kitchen_hass (temperature_sensor (cardConfig kitchen_config))
             = Some \<lparr> state = ''21.5'' \<rparr>"
    and m: "getState sample_helpers kitchen_hass (humidity_sensor (cardConfig kitchen_config))
             = Some \<lparr> state = ''40'' \<rparr>"
    by (simp_all add: cardConfig_kitchen sample_helpers_def kitchen_hass_def)
  from getLabel_formats_climate [OF h kitchen_configured a u t _ m]
  have "getLabel sample_helpers (kitchen_card kitchen_hass)
          = Inr (units (''21.5'' @ [degree_sign] @ ''C - 40%''))"
    by simp
  moreover have "units (''21.5'' @ [degree_sign] @ ''C - 40%'')
      = [50, 49, 46, 53, 176, 67, 32, 45, 32, 52, 48, 37]"
    by (simp add: units_def degree_sign_def)
  ultimately show ?thesis
    using h kitchen_configured [of kitchen_hass] a u t m by simp
qed

text \<open>
  C4 fails on the code, and the specification is right to ask for blank text. The
  kitchen card holds a snapshot in which neither climate sensor has a live state:
  \<open>getState\<close> is undefined for both, nothing is raised and the card renders, but the
  label is not blank: the template literal writes each undefined value out as the
  word \<open>undefined\<close>.
\<close>

theorem getLabel_without_live_state:
  "getState sample_helpers silent_hass (temperature_sensor (cardConfig kitchen_config)) = None
   \<and> getState sample_helpers silent_hass (humidity_sensor (cardConfig kitchen_config)) = None
   \<and> getLabel sample_helpers (kitchen_card silent_hass)
       = Inr (units (''undefined'' @ [degree_sign] @ ''C - undefined%''))
   \<and> getLabel sample_helpers (kitchen_card silent_hass) \<noteq> Inr []"
proof -
  have g: "getState sample_helpers silent_hass (temperature_sensor (cardConfig kitchen_config))
             = None"
      "getState sample_helpers silent_hass (humidity_sensor (cardConfig kitchen_config)) = None"
    by (simp_all add: cardConfig_kitchen sample_helpers_def silent_hass_def)
  have "getLabel sample_helpers (kitchen_card silent_hass)
          = Inr (units (''undefined'' @ [degree_sign] @ ''C - undefined%''))"
    unfolding kitchen_card_silent_hass
    by (simp add: getLabel_def g truthy_def interpolate_def toUpperCase_C)
       (simp add: cardConfig_kitchen units_def)
  with g show ?thesis by (simp add: units_def)
qed


section \<open>The problem indicator\<close>

text \<open>
  C7. In a rendered card there is no indicator when the problem list is empty. When
  it is not, there is one: its icon is \<open>mdi:numeric-\<close> followed by the decimal digits
  of the number of problem entities (\<open>mdi:numeric-1\<close> for one entity), and its
  background is the red of opacity 0.8 when the flag is set and the green of opacity
  0.6 when it is not.
\<close>

theorem problem_indicator_rendered:
  assumes "render H c = Inr (Card v)"
  shows "(card_problemEntities c = [] \<longrightarrow> problemIndicator v = None)
    \<and> (card_problemEntities c \<noteq> [] \<longrightarrow>
         problemIndicator v =
           Some \<lparr> badge_icon = ''mdi:numeric-''
                                @ num_to_string (length (card_problemEntities c)),
                  badge_class = ''status-entities'',
                  badge_style = ''background-color: ''
                     @ (if card_problemExists c then ''rgba(var(--color-red), 0.8)''
                        else ''rgba(var(--color-green), 0.6)'') \<rparr>)
    \<and> digits_value (num_to_string (length (card_problemEntities c)))
        = length (card_problemEntities c)
    \<and> (length (card_problemEntities c) = 1 \<longrightarrow>
         map_option badge_icon (problemIndicator v) = Some ''mdi:numeric-1'')"
proof -
  from render_Card [OF assms] have p: "problemIndicator v = renderProblemIndicator c"
    by blast
  have one: "map_option badge_icon (renderProblemIndicator c) = Some ''mdi:numeric-1''"
    if "length (card_problemEntities c) = 1"
    using that by (simp add: renderProblemIndicator_def num_to_string_1 [unfolded One_nat_def])
  show ?thesis
    unfolding p using one
    by (simp add: renderProblemIndicator_def digits_value_num_to_string)
qed

text \<open>
  The kitchen with the smoke problem on, with the smoke problem registered and off, and
  with no problem entity.
\<close>

theorem problem_indicator_rendered_witness:
  "card_problemEntities (kitchen_card kitchen_hass) = [''problem.kitchen_smoke'']
   \<and> card_problemExists (kitchen_card kitchen_hass)
   \<and> (case render sample_helpers (kitchen_card kitchen_hass) of
         Inr (Card v) \<Rightarrow> problemIndicator v
       | _ \<Rightarrow> None)
       = Some \<lparr> badge_icon = ''mdi:numeric-1'', badge_class = ''status-entities'',
                badge_style = ''background-color: rgba(var(--color-red), 0.8)'' \<rparr>
   \<and> card_problemEntities (kitchen_card quiet_hass) = [''problem.kitchen_smoke'']
   \<and> \<not> card_problemExists (kitchen_card quiet_hass)
   \<and> (case render sample_helpers (kitchen_card quiet_hass) of
         Inr (Card v) \<Rightarrow> problemIndicator v
       | _ \<Rightarrow> None)
       = Some \<lparr> badge_icon = ''mdi:numeric-1'', badge_class = ''status-entities'',
                badge_style = ''background-color: rgba(var(--color-green), 0.6)'' \<rparr>
   \<and> card_problemEntities (kitchen_card silent_hass) = []
   \<and> (case render sample_helpers (kitchen_card silent_hass) of
         Inr (Card v) \<Rightarrow> Some (problemIndicator v)
       | _ \<Rightarrow> None)
       = Some None"
proof -
  obtain v1 where r1: "render sample_helpers (kitchen_card kitchen_hass) = Inr (Card v1)"
    using kitchen_renders by blast
  obtain v2 where r2: "render sample_helpers (kitchen_card quiet_hass) = Inr (Card v2)"
    using kitchen_renders by blast
  obtain v3 where r3: "render sample_helpers (kitchen_card silent_hass) = Inr (Card v3)"
    using kitchen_renders by blast
  from problem_indicator_rendered [OF r1]
  have b1: "problemIndicator v1
      = Some \<lparr> badge_icon = ''mdi:numeric-1'', badge_class = ''status-entities'',
               badge_style = ''background-color: rgba(var(--color-red), 0.8)'' \<rparr>"
    by (simp add: kitchen_card_kitchen_hass num_to_string_1 [unfolded One_nat_def])
  from problem_indicator_rendered [OF r2]
  have b2: "problemIndicator v2
      = Some \<lparr> badge_icon = ''mdi:numeric-1'', badge_class = ''status-entities'',
               badge_style = ''background-color: rgba(var(--color-green), 0.6)'' \<rparr>"
    by (simp add: kitchen_card_quiet_hass num_to_string_1 [unfolded One_nat_def])
  from problem_indicator_rendered [OF r3]
  have b3: "problemIndicator v3 = None"
    by (simp add: kitchen_card_silent_hass)
  have f: "card_problemEntities (kitchen_card kitchen_hass) = [''problem.kitchen_smoke'']"
      "card_problemExists (kitchen_card kitchen_hass)"
      "card_problemEntities (kitchen_card quiet_hass) = [''problem.kitchen_smoke'']"
      "\<not> card_problemExists (kitchen_card quiet_hass)"
      "card_problemEntities (kitchen_card silent_hass) = []"
    by (simp_all add: kitchen_card_kitchen_hass kitchen_card_quiet_hass kitchen_card_silent_hass)
  show ?thesis
    unfolding r1 r2 r3 using b1 b2 b3 f by simp
qed


section \<open>The icon cells\<close>













section \<open>The room name\<close>

lemma living_card_eq:
  "living_card =
     \<lparr> card_config = Some (cardConfig living_config),
       card_states = Some [''light.living_room_light'', ''switch.living_room_fan''],
       card_roomEntity = Some ''light.living_room_light'',
       card_problemEntities = [],
       card_problemExists = False,
       card_hass = Some silent_hass \<rparr>"
proof -
  have "card_config (snd (setConfig living_config (new_card :: (unit, string) RoomSummaryCard)))
          = Some (cardConfig living_config)"
    by (simp add: setConfig_def)
  from set_hass_configured [OF this, of sample_helpers silent_hass]
  show ?thesis
    unfolding living_card_def
    by (simp add: setConfig_def new_card_def sample_helpers_def)
       (simp add: silent_hass_def cardConfig_def living_config_def)
qed

lemma spec_area_name_living_room: "spec_area_name ''living_room'' = units ''Living Room''"
  by code_simp

text \<open>
  C10, as the specification words it, fails for a label that is set to the empty
  string: the living-room card, whose label is set and empty, does not show the label
  but the formatted area name.
\<close>

theorem empty_label_not_displayed:
  "map_option label (card_config living_card) = Some (Some [])
   \<and> (case render sample_helpers living_card of
         Inr (Card v) \<Rightarrow> Some (areaName v)
       | _ \<Rightarrow> None)
       = Some (units ''Living Room'')
   \<and> (case render sample_helpers living_card of
         Inr (Card v) \<Rightarrow> Some (areaName v)
       | _ \<Rightarrow> None)
       \<noteq> Some (units [])"
proof -
  have g: "card_config living_card = Some (cardConfig living_config)"
    by (simp add: living_card_eq)
  have l: "label (cardConfig living_config) = Some []"
    by (simp add: cardConfig_def living_config_def)
  have "card_states living_card = Some [''light.living_room_light'', ''switch.living_room_fan'']"
    and "card_roomEntity living_card = Some ''light.living_room_light''"
    by (simp_all add: living_card_eq)
  then have "\<exists>v. render sample_helpers living_card = Inr (Card v)"
    using g by (rule render_total)
  then obtain v where r: "render sample_helpers living_card = Inr (Card v)"
    by blast
  have "area (cardConfig living_config) = ''living_room''"
    by (simp add: cardConfig_def living_config_def)
  then have "displayName living_card = Inr (units ''Living Room'')"
    using g l
    by (simp add: displayName_def truthy_def formatAreaName_spec spec_area_name_living_room)
  with render_Card [OF r] have "areaName v = units ''Living Room''"
    by auto
  with g l show ?thesis
    unfolding r by (simp add: units_def)
qed

text \<open>
  C10, amended. A rendered card shows, as the room name, the configured label when it
  is set to a non-empty string, verbatim; when the label is unset or empty it shows
  the area identifier split on the underscore, the first character of each word
  uppercased, the words joined by single spaces: \<open>Living Room\<close> for \<open>living_room\<close>,
  and for the area written e-acute, t, e-acute, \<open>_salon\<close> the name that begins with
  the capital E-acute (code unit 201) and keeps the second e-acute (233).
\<close>

theorem displayed_room_name:
  assumes "render H c = Inr (Card v)" and "card_config c = Some cfg"
  shows "(label cfg = None \<or> label cfg = Some [] \<longrightarrow> areaName v = spec_area_name (area cfg))
    \<and> (\<forall>l. label cfg = Some l \<and> l \<noteq> [] \<longrightarrow> areaName v = units l)
    \<and> spec_area_name ''living_room'' = units ''Living Room''
    \<and> spec_area_name ([char_of (233::nat), CHR ''t'', char_of (233::nat)] @ ''_salon'')
        = [201, 116, 233] @ units '' Salon''"
proof -
  from render_Card [OF assms(1)] have n: "displayName c = Inr (areaName v)"
    by blast
  have unset: "areaName v = spec_area_name (area cfg)"
    if "label cfg = None \<or> label cfg = Some []"
    using that n assms(2) by (auto simp: displayName_def truthy_def formatAreaName_spec)
  have set: "areaName v = units l" if "label cfg = Some l" and "l \<noteq> []" for l
    using that n assms(2) by (simp add: displayName_def truthy_def)
  have "spec_area_name ([char_of (233::nat), CHR ''t'', char_of (233::nat)] @ ''_salon'')
      = [201, 116, 233] @ units '' Salon''"
    by code_simp
  with unset set spec_area_name_living_room show ?thesis
    by blast
qed

text \<open>
  The kitchen card, with no label, shows \<open>Kitchen\<close>; with the label \<open>Cookhouse\<close> held
  it shows the label.
\<close>

theorem displayed_room_name_witness:
  "card_config (kitchen_card kitchen_hass) = Some (cardConfig kitchen_config)
   \<and> label (cardConfig kitchen_config) = None
   \<and> (case render sample_helpers (kitchen_card kitchen_hass) of
         Inr (Card v) \<Rightarrow> Some (areaName v)
       | _ \<Rightarrow> None)
       = Some (units ''Kitchen'')
   \<and> (case render sample_helpers ((kitchen_card kitchen_hass)
           \<lparr> card_config := Some (kitchen_config \<lparr> label := Some ''Cookhouse'' \<rparr>) \<rparr>) of
         Inr (Card v) \<Rightarrow> Some (areaName v)
       | _ \<Rightarrow> None)
       = Some (units ''Cookhouse'')"
proof -
  let ?c = "kitchen_card kitchen_hass"
  let ?g = "kitchen_config \<lparr> label := Some ''Cookhouse'' \<rparr>"
  let ?d = "?c \<lparr> card_config := Some ?g \<rparr>"
  have l: "label (cardConfig kitchen_config) = None"
    and a: "area (cardConfig kitchen_config) = ''kitchen''"
    by (simp_all add: cardConfig_kitchen)
  obtain v where r: "render sample_helpers ?c = Inr (Card v)"
    using kitchen_renders by blast
  have g': "card_config ?d = Some ?g"
    by simp
  have "card_states ?d = Some [''light.kitchen_light'', ''switch.kitchen_fan'']"
    and "card_roomEntity ?d = Some ''light.kitchen_light''"
    by (simp_all add: kitchen_card_kitchen_hass)
  then have "\<exists>v'. render sample_helpers ?d = Inr (Card v')"
    using g' by (rule render_total)
  then obtain v' where r': "render sample_helpers ?d = Inr (Card v')"
    by blast
  have k: "spec_area_name ''kitchen'' = units ''Kitchen''"
    by code_simp
  from displayed_room_name [OF r kitchen_configured] l a k
  have n: "areaName v = units ''Kitchen''"
    by simp
  have "label ?g = Some ''Cookhouse'' \<and> ''Cookhouse'' \<noteq> []"
    by simp
  with displayed_room_name [OF r' g']
  have n': "areaName v' = units ''Cookhouse''"
    by blast
  show ?thesis
    unfolding r r' using kitchen_configured [of kitchen_hass] l n n' by simp
qed

end
